theory Spec2Isabelle
  imports Main
begin

section \<open>System monitor (class \<open>SystemMonitor\<close>)\<close>

text \<open>
  A \<open>SystemMonitor\<close> instance is a JavaScript object.  Its class declares a method
  named \<open>updateInterval\<close> on the prototype, and its constructor assigns
  \<open>this.updateInterval = 1000\<close>, which creates an own data property of the same name.
  Property lookup on the instance finds the own property first.  The member
  \<open>updateInterval\<close> of an instance is therefore modelled by what the lookup yields:
  a number once an own property has been written, the prototype's method otherwise.
  Intervals are milliseconds, kept as integers.
\<close>

datatype js_member = NumberValue int | PrototypeMethod

record system_monitor =
  isMonitoring :: bool
  monitoringInterval :: "int option"
  updateInterval :: js_member

datatype sm_error = IntervalOutOfRange | NotAFunction

text \<open>The object as \<open>Object.create(SystemMonitor.prototype)\<close> leaves it, before the
  constructor body runs: no own property yet.\<close>

definition SystemMonitor_blank :: system_monitor where
  "SystemMonitor_blank =
     \<lparr> isMonitoring = False, monitoringInterval = None, updateInterval = PrototypeMethod \<rparr>"

definition SystemMonitor_constructor :: system_monitor where
  "SystemMonitor_constructor =
     SystemMonitor_blank \<lparr> isMonitoring := False, monitoringInterval := None,
                           updateInterval := NumberValue 1000 \<rparr>"

text \<open>\<open>startMonitoring(interval)\<close>, as it leaves the object once its awaited first
  sample has completed: \<open>updateSystemStats\<close> catches its own errors, so the body has no
  failing branch; the periodic timer is kept as its period.\<close>

definition sm_startMonitoring :: "int \<Rightarrow> system_monitor \<Rightarrow> system_monitor" where
  "sm_startMonitoring interval m =
     (if isMonitoring m then m
      else m \<lparr> updateInterval := NumberValue interval,
               monitoringInterval := Some interval,
               isMonitoring := True \<rparr>)"

definition sm_stopMonitoring :: "system_monitor \<Rightarrow> system_monitor" where
  "sm_stopMonitoring m =
     (if \<not> isMonitoring m then m
      else m \<lparr> monitoringInterval := None, isMonitoring := False \<rparr>)"

definition sm_isActive :: "system_monitor \<Rightarrow> bool" where
  "sm_isActive m = isMonitoring m"

text \<open>The body of the prototype method \<open>updateInterval(newInterval)\<close>.\<close>

definition updateInterval_method :: "int \<Rightarrow> system_monitor \<Rightarrow> sm_error + system_monitor" where
  "updateInterval_method newInterval m =
     (if newInterval < 100 \<or> newInterval > 10000 then Inl IntervalOutOfRange
      else
        let m1 = m \<lparr> updateInterval := NumberValue newInterval \<rparr>
        in Inr (if isMonitoring m1
                then sm_startMonitoring newInterval (sm_stopMonitoring m1)
                else m1))"

text \<open>The call expression \<open>systemMonitor.updateInterval(ms)\<close>, as the settings handlers
  write it: the member is looked up on the instance and called; calling a number is a
  \<open>TypeError\<close>.\<close>

definition call_updateInterval :: "system_monitor \<Rightarrow> int \<Rightarrow> sm_error + system_monitor" where
  "call_updateInterval m ms =
     (case updateInterval m of
        NumberValue v \<Rightarrow> Inl NotAFunction
      | PrototypeMethod \<Rightarrow> updateInterval_method ms m)"

text \<open>The part of the \<open>apply-settings\<close> and \<open>save-settings\<close> handlers that applies
  \<open>settings.updateInterval\<close>: the call is made when the setting is truthy and the
  monitor exists and is active, and an error it throws is logged and dropped.\<close>

definition apply_updateInterval_setting ::
  "int option \<Rightarrow> system_monitor option \<Rightarrow> system_monitor option" where
  "apply_updateInterval_setting setting systemMonitor =
     (case (setting, systemMonitor) of
        (Some ms, Some m) \<Rightarrow>
          if ms \<noteq> 0 \<and> sm_isActive m
          then (case call_updateInterval m ms of Inl err \<Rightarrow> Some m | Inr m' \<Rightarrow> Some m')
          else Some m
      | _ \<Rightarrow> systemMonitor)"

section \<open>Supervisor state of the main process\<close>

text \<open>
  The recovery logic of the main process works on module-level variables and on three
  collaborators whose classes are not part of the modelled sources: the serial manager,
  the keyboard monitor and the renderer window.  A collaborator is represented by the
  state the supervisor reads from it, and each of its asynchronous operations by the
  outcome it produces when a handler awaits it (\<open>env\<close> below), so every statement
  proved for all \<open>env\<close> holds for every behaviour of the collaborators.
\<close>

record typing_session =
  totalKeystrokes :: nat
  startTime :: "nat option"
  lastKeystrokeTime :: nat

text \<open>\<open>keyboardListener\<close> stands for the test
  \<open>keyboardMonitor.keyboardListener && keyboardMonitor.keyboardListener.kill\<close>;
  \<open>km_isActive\<close> for the result of \<open>keyboardMonitor.isActive?.()\<close>.\<close>

record keyboard_monitor =
  currentSession :: "typing_session option"
  keyboardListener :: bool
  fallbackMode :: bool
  km_isActive :: bool

text \<open>The serial manager, as \<open>getConnectionStatus()\<close> reports it.\<close>

record serial_manager =
  isConnected :: bool
  port :: "string option"

record port_info =
  path :: string
  manufacturer :: string

text \<open>Statistics are only passed along; their numeric fields are kept as naturals.\<close>

record system_stats =
  cpu :: nat
  memory :: nat

record typing_stats =
  wpm :: nat
  isActive :: bool

record connection_data =
  connected :: bool
  data_port :: "string option"

text \<open>A single-shot timer pending in the event loop: the handle \<open>setTimeout\<close> returned,
  the callback it will run and its delay in milliseconds.\<close>

datatype timer_kind = ResumeReconnect | KeyboardRecovery

record timer =
  handle :: nat
  kind :: timer_kind
  delay :: nat

text \<open>Calls made to the collaborators, in order.\<close>

datatype call =
    GetAvailablePorts
  | ConnectToDevice string
  | Disconnect
  | StopMonitoring
  | StartMonitoring
  | SendCombinedStats system_stats typing_stats
  | WebContentsSend string

record main_state =
  mainWindow :: bool
  esp32SerialManager :: "serial_manager option"
  keyboardMonitor :: "keyboard_monitor option"
  systemSuspended :: bool
  pendingResumePort :: "string option"
  resumeReconnectTimer :: "nat option"
  resumeReconnectAttempts :: nat
  keyboardRecoveryTimer :: "nat option"
  keyboardRecoveryAttempts :: nat
  lastSystemStats :: system_stats
  lastTypingStats :: typing_stats
  timers :: "timer list"
  nextHandle :: nat
  calls :: "call list"

text \<open>Outcome of an awaited collaborator operation, with the collaborator's state
  afterwards.  \<open>connectToDevice\<close> resolves to an object with a \<open>success\<close> flag.\<close>

datatype 'c outcome = Returns 'c | Throws 'c

datatype connect_outcome = ConnectReturns bool serial_manager | ConnectThrows serial_manager

record env =
  portsResult :: "port_info list option"
  connectResult :: connect_outcome
  disconnectResult :: "serial_manager outcome"
  stopResult :: "keyboard_monitor outcome"
  startResult :: "keyboard_monitor outcome"

datatype error = KeyboardMonitorNotInitialized | CollaboratorError

definition RESUME_RETRY_BASE_DELAY_MS :: nat where "RESUME_RETRY_BASE_DELAY_MS = 1000"
definition RESUME_RETRY_MAX_DELAY_MS :: nat where "RESUME_RETRY_MAX_DELAY_MS = 30000"
definition RESUME_RETRY_LIMIT :: nat where "RESUME_RETRY_LIMIT = 10"
definition KEYBOARD_RECOVERY_BASE_DELAY_MS :: nat where "KEYBOARD_RECOVERY_BASE_DELAY_MS = 2000"
definition KEYBOARD_RECOVERY_MAX_DELAY_MS :: nat where "KEYBOARD_RECOVERY_MAX_DELAY_MS = 60000"
definition KEYBOARD_RECOVERY_LIMIT :: nat where "KEYBOARD_RECOVERY_LIMIT = 5"

text \<open>JavaScript truthiness of a value that is \<open>null\<close>/\<open>undefined\<close> or a string: the
  empty string is falsy.\<close>

definition truthy :: "string option \<Rightarrow> bool" where
  "truthy v = (case v of None \<Rightarrow> False | Some p \<Rightarrow> p \<noteq> [])"

text \<open>\<open>x || 0\<close> on a number.\<close>

definition or_zero :: "nat \<Rightarrow> nat" where
  "or_zero n = (if n = 0 then 0 else n)"

definition state_after :: "'c outcome \<Rightarrow> 'c" where
  "state_after r = (case r of Returns c \<Rightarrow> c | Throws c \<Rightarrow> c)"

definition record_call :: "call \<Rightarrow> main_state \<Rightarrow> main_state" where
  "record_call c s = s \<lparr> calls := calls s @ [c] \<rparr>"

definition setTimeout :: "timer_kind \<Rightarrow> nat \<Rightarrow> main_state \<Rightarrow> nat \<times> main_state" where
  "setTimeout k d s =
     (nextHandle s,
      s \<lparr> timers := timers s @ [\<lparr> handle = nextHandle s, kind = k, delay = d \<rparr>],
          nextHandle := Suc (nextHandle s) \<rparr>)"

definition clearTimeout :: "nat \<Rightarrow> main_state \<Rightarrow> main_state" where
  "clearTimeout h s = s \<lparr> timers := filter (\<lambda>t. handle t \<noteq> h) (timers s) \<rparr>"

text \<open>The state when \<open>initializeModules\<close> has run, for given collaborators.\<close>

definition initial_state ::
  "serial_manager option \<Rightarrow> keyboard_monitor option \<Rightarrow> main_state" where
  "initial_state esp km =
     \<lparr> mainWindow = False, esp32SerialManager = esp, keyboardMonitor = km,
       systemSuspended = False, pendingResumePort = None,
       resumeReconnectTimer = None, resumeReconnectAttempts = 0,
       keyboardRecoveryTimer = None, keyboardRecoveryAttempts = 0,
       lastSystemStats = \<lparr> cpu = 0, memory = 0 \<rparr>,
       lastTypingStats = \<lparr> wpm = 0, isActive = False \<rparr>,
       timers = [], nextHandle = 0, calls = [] \<rparr>"

section \<open>Retry timers\<close>

definition clearResumeReconnectTimer :: "main_state \<Rightarrow> main_state" where
  "clearResumeReconnectTimer s =
     (case resumeReconnectTimer s of
        None \<Rightarrow> s
      | Some h \<Rightarrow> (clearTimeout h s) \<lparr> resumeReconnectTimer := None \<rparr>)"

definition clearKeyboardRecoveryTimer :: "main_state \<Rightarrow> main_state" where
  "clearKeyboardRecoveryTimer s =
     (case keyboardRecoveryTimer s of
        None \<Rightarrow> s
      | Some h \<Rightarrow> (clearTimeout h s) \<lparr> keyboardRecoveryTimer := None \<rparr>)"

definition scheduleResumeReconnect :: "nat \<Rightarrow> main_state \<Rightarrow> main_state" where
  "scheduleResumeReconnect delayMs s =
     (if systemSuspended s then s
      else
        let (h, s') = setTimeout ResumeReconnect delayMs (clearResumeReconnectTimer s)
        in s' \<lparr> resumeReconnectTimer := Some h \<rparr>)"

definition scheduleKeyboardRecovery :: "nat \<Rightarrow> main_state \<Rightarrow> main_state" where
  "scheduleKeyboardRecovery delayMs s =
     (if systemSuspended s \<or> keyboardMonitor s = None then s
      else
        let (h, s') = setTimeout KeyboardRecovery delayMs (clearKeyboardRecoveryTimer s)
        in s' \<lparr> keyboardRecoveryTimer := Some h \<rparr>)"

section \<open>Device reconnection after resume\<close>

text \<open>The \<open>catch\<close> block of \<open>attemptResumeReconnect\<close>, run with the attempt's number on
  the state current when the failure is observed.\<close>

definition attemptResumeReconnect_catch :: "nat \<Rightarrow> main_state \<Rightarrow> main_state" where
  "attemptResumeReconnect_catch attemptNumber s =
     (if attemptNumber \<ge> RESUME_RETRY_LIMIT then clearResumeReconnectTimer s
      else
        let nextDelay = min (RESUME_RETRY_BASE_DELAY_MS * 2 ^ (attemptNumber - 1))
                            RESUME_RETRY_MAX_DELAY_MS
        in scheduleResumeReconnect nextDelay s)"

text \<open>\<open>attemptResumeReconnect\<close>, with the awaited calls completing in turn.  The
  \<open>success\<close> flag of the connect result is not inspected by the source.\<close>

definition attemptResumeReconnect :: "env \<Rightarrow> main_state \<Rightarrow> main_state" where
  "attemptResumeReconnect e s =
     (case (pendingResumePort s, esp32SerialManager s) of
        (Some pending, Some m) \<Rightarrow>
          if pending = [] \<or> systemSuspended s then s
          else if isConnected m then
            clearResumeReconnectTimer
              (s \<lparr> pendingResumePort := None, resumeReconnectAttempts := 0 \<rparr>)
          else
            let attemptNumber = resumeReconnectAttempts s + 1;
                s1 = record_call GetAvailablePorts
                       (s \<lparr> resumeReconnectAttempts := attemptNumber \<rparr>)
            in case portsResult e of
                 None \<Rightarrow> attemptResumeReconnect_catch attemptNumber s1
               | Some ports \<Rightarrow>
                   (case find (\<lambda>p. path p = pending) ports of
                      None \<Rightarrow> attemptResumeReconnect_catch attemptNumber s1
                    | Some matchingPort \<Rightarrow>
                        let s2 = record_call (ConnectToDevice pending) s1
                        in case connectResult e of
                             ConnectThrows m' \<Rightarrow>
                               attemptResumeReconnect_catch attemptNumber
                                 (s2 \<lparr> esp32SerialManager := Some m' \<rparr>)
                           | ConnectReturns ok m' \<Rightarrow>
                               clearResumeReconnectTimer
                                 (s2 \<lparr> esp32SerialManager := Some m',
                                       pendingResumePort := None,
                                       resumeReconnectAttempts := 0 \<rparr>))
      | _ \<Rightarrow> s)"

section \<open>Keyboard listener restart and recovery\<close>

text \<open>\<open>restartKeyboardMonitoring({force})\<close>.  The result pairs the error thrown, if any,
  with the state reached.\<close>

definition splice_session :: "typing_session \<Rightarrow> typing_session \<Rightarrow> typing_session" where
  "splice_session previousSession cur =
     cur \<lparr> totalKeystrokes := or_zero (totalKeystrokes previousSession),
           startTime := startTime previousSession,
           lastKeystrokeTime := or_zero (lastKeystrokeTime previousSession) \<rparr>"

definition restartKeyboardMonitoring ::
  "env \<Rightarrow> bool \<Rightarrow> main_state \<Rightarrow> error option \<times> main_state" where
  "restartKeyboardMonitoring e force s =
     (case keyboardMonitor s of
        None \<Rightarrow> (Some KeyboardMonitorNotInitialized, s)
      | Some km \<Rightarrow>
          if \<not> force \<and> \<not> km_isActive km then (None, s)
          else
            let previousSession = currentSession km;
                s1 = record_call StopMonitoring s
            in case stopResult e of
                 Throws km1 \<Rightarrow> (Some CollaboratorError, s1 \<lparr> keyboardMonitor := Some km1 \<rparr>)
               | Returns km1 \<Rightarrow>
                   let s2 = record_call StartMonitoring (s1 \<lparr> keyboardMonitor := Some km1 \<rparr>)
                   in case startResult e of
                        Throws km2 \<Rightarrow>
                          (Some CollaboratorError, s2 \<lparr> keyboardMonitor := Some km2 \<rparr>)
                      | Returns km2 \<Rightarrow>
                          let km3 = (case (previousSession, currentSession km2) of
                                       (Some prev, Some cur) \<Rightarrow>
                                         km2 \<lparr> currentSession := Some (splice_session prev cur) \<rparr>
                                     | _ \<Rightarrow> km2)
                          in (None,
                              clearKeyboardRecoveryTimer
                                (s2 \<lparr> keyboardMonitor := Some km3,
                                      keyboardRecoveryAttempts := 0 \<rparr>)))"

definition attemptKeyboardRecovery_catch :: "nat \<Rightarrow> main_state \<Rightarrow> main_state" where
  "attemptKeyboardRecovery_catch attemptNumber s =
     (if attemptNumber \<ge> KEYBOARD_RECOVERY_LIMIT then clearKeyboardRecoveryTimer s
      else
        let nextDelay = min (KEYBOARD_RECOVERY_BASE_DELAY_MS * 2 ^ (attemptNumber - 1))
                            KEYBOARD_RECOVERY_MAX_DELAY_MS
        in scheduleKeyboardRecovery nextDelay s)"

definition attemptKeyboardRecovery :: "env \<Rightarrow> main_state \<Rightarrow> main_state" where
  "attemptKeyboardRecovery e s =
     (case keyboardMonitor s of
        None \<Rightarrow> s
      | Some km \<Rightarrow>
          if systemSuspended s then s
          else
            let listenerActive = keyboardListener km
            in if listenerActive \<and> \<not> fallbackMode km then
                 (clearKeyboardRecoveryTimer s) \<lparr> keyboardRecoveryAttempts := 0 \<rparr>
               else
                 let attemptNumber = keyboardRecoveryAttempts s + 1;
                     s1 = record_call StopMonitoring
                            (s \<lparr> keyboardRecoveryAttempts := attemptNumber \<rparr>)
                 in case stopResult e of
                      Throws km1 \<Rightarrow>
                        attemptKeyboardRecovery_catch attemptNumber
                          (s1 \<lparr> keyboardMonitor := Some km1 \<rparr>)
                    | Returns km1 \<Rightarrow>
                        let s2 = record_call StartMonitoring
                                   (s1 \<lparr> keyboardMonitor := Some km1 \<rparr>)
                        in case startResult e of
                             Throws km2 \<Rightarrow>
                               attemptKeyboardRecovery_catch attemptNumber
                                 (s2 \<lparr> keyboardMonitor := Some km2 \<rparr>)
                           | Returns km2 \<Rightarrow>
                               clearKeyboardRecoveryTimer
                                 (s2 \<lparr> keyboardMonitor := Some km2,
                                       keyboardRecoveryAttempts := 0 \<rparr>))"

text \<open>The handler of the \<open>restart-keyboard-monitoring\<close> request (the manual forced
  restart).  The reply is the error thrown to the caller, or the \<open>success\<close> flag.\<close>

definition ipc_restart_keyboard_monitoring ::
  "env \<Rightarrow> main_state \<Rightarrow> (error + bool) \<times> main_state" where
  "ipc_restart_keyboard_monitoring e s =
     (if keyboardMonitor s = None then (Inl KeyboardMonitorNotInitialized, s)
      else
        case restartKeyboardMonitoring e True
               (clearKeyboardRecoveryTimer (s \<lparr> keyboardRecoveryAttempts := 0 \<rparr>)) of
          (None, s1) \<Rightarrow>
            let fallbackActive =
                  (case keyboardMonitor s1 of None \<Rightarrow> False | Some km \<Rightarrow> fallbackMode km)
            in (Inr (\<not> fallbackActive),
                if fallbackActive
                then scheduleKeyboardRecovery KEYBOARD_RECOVERY_BASE_DELAY_MS s1
                else s1)
        | (Some err, s1) \<Rightarrow>
            (Inr False, scheduleKeyboardRecovery KEYBOARD_RECOVERY_BASE_DELAY_MS s1))"

section \<open>Event handlers\<close>

text \<open>The \<open>connection-change\<close> listener; the payload may be absent (\<open>data?.connected\<close>).\<close>

definition on_connection_change :: "connection_data option \<Rightarrow> main_state \<Rightarrow> main_state" where
  "on_connection_change data s =
     (let s1 = (case data of
                  None \<Rightarrow> s
                | Some d \<Rightarrow>
                    if connected d \<and> truthy (data_port d)
                    then s \<lparr> pendingResumePort := data_port d \<rparr>
                    else s)
      in if mainWindow s1 then record_call (WebContentsSend ''connection-change'') s1 else s1)"

definition on_system_stats :: "system_stats \<Rightarrow> main_state \<Rightarrow> main_state" where
  "on_system_stats stats s =
     (let s1 = (if mainWindow s then record_call (WebContentsSend ''system-stats'') s else s)
      in s1 \<lparr> lastSystemStats := stats \<rparr>)"

definition on_typing_stats :: "typing_stats \<Rightarrow> main_state \<Rightarrow> main_state" where
  "on_typing_stats stats s =
     (let s1 = (if mainWindow s then record_call (WebContentsSend ''typing-stats'') s else s)
      in s1 \<lparr> lastTypingStats := stats \<rparr>)"

definition on_keyboard_fallback :: "main_state \<Rightarrow> main_state" where
  "on_keyboard_fallback s =
     (let s1 = (if mainWindow s then record_call (WebContentsSend ''keyboard-fallback'') s else s)
      in scheduleKeyboardRecovery KEYBOARD_RECOVERY_BASE_DELAY_MS s1)"

text \<open>One run of the callback of \<open>statsInterval\<close> (period 1000 ms).\<close>

definition statsInterval_tick :: "main_state \<Rightarrow> main_state" where
  "statsInterval_tick s =
     (case esp32SerialManager s of
        None \<Rightarrow> s
      | Some m \<Rightarrow>
          if isConnected m
          then record_call (SendCombinedStats (lastSystemStats s) (lastTypingStats s)) s
          else s)"

definition on_suspend :: "env \<Rightarrow> main_state \<Rightarrow> main_state" where
  "on_suspend e s =
     (let s1 = (clearResumeReconnectTimer (s \<lparr> systemSuspended := True \<rparr>))
                 \<lparr> resumeReconnectAttempts := 0 \<rparr>
      in case esp32SerialManager s1 of
           None \<Rightarrow> s1
         | Some status \<Rightarrow>
             if isConnected status \<and> truthy (port status) then
               (record_call Disconnect (s1 \<lparr> pendingResumePort := port status \<rparr>))
                 \<lparr> esp32SerialManager := Some (state_after (disconnectResult e)) \<rparr>
             else if truthy (port status) then s1 \<lparr> pendingResumePort := port status \<rparr>
             else s1)"

text \<open>The \<open>resume\<close> listener calls \<open>restartKeyboardMonitoring()\<close> without options, so
  \<open>force\<close> takes its default \<open>false\<close>; a rejection is logged by the \<open>.catch\<close>.\<close>

definition on_resume :: "env \<Rightarrow> main_state \<Rightarrow> main_state" where
  "on_resume e s =
     (let s1 = s \<lparr> systemSuspended := False, resumeReconnectAttempts := 0 \<rparr>;
          s2 = (if truthy (pendingResumePort s1) \<and> esp32SerialManager s1 \<noteq> None
                then scheduleResumeReconnect RESUME_RETRY_BASE_DELAY_MS s1
                else s1)
      in snd (restartKeyboardMonitoring e False s2))"

definition cleanupPowerHandlers :: "main_state \<Rightarrow> main_state" where
  "cleanupPowerHandlers s =
     (clearKeyboardRecoveryTimer (clearResumeReconnectTimer s))
       \<lparr> systemSuspended := False,
         resumeReconnectAttempts := 0,
         keyboardRecoveryAttempts := 0 \<rparr>"

text \<open>A timer that is due: it leaves the event loop and its callback runs.  The variable
  that held its handle keeps the handle.\<close>

definition timer_fires :: "env \<Rightarrow> nat \<Rightarrow> main_state \<Rightarrow> main_state" where
  "timer_fires e h s =
     (case find (\<lambda>t. handle t = h) (timers s) of
        None \<Rightarrow> s
      | Some t \<Rightarrow>
          let s1 = s \<lparr> timers := filter (\<lambda>t. handle t \<noteq> h) (timers s) \<rparr>
          in case kind t of
               ResumeReconnect \<Rightarrow> attemptResumeReconnect e s1
             | KeyboardRecovery \<Rightarrow> attemptKeyboardRecovery e s1)"

section \<open>The event loop\<close>

text \<open>
  The events the supervisor reacts to.  \<open>SerialUpdate\<close> and \<open>KeyboardUpdate\<close> stand for a
  collaborator changing its own state outside the supervisor (a manual connect, a lost
  device, keystrokes counted, a listener process that dies); \<open>WindowChange\<close> for the
  renderer window being created or destroyed.  \<open>step\<close> runs one handler to completion:
  the calls it awaits complete before the next event is taken.
\<close>

datatype event =
    Suspend
  | Resume
  | TimerFires nat
  | ConnectionChange "connection_data option"
  | SystemStats system_stats
  | TypingStats typing_stats
  | KeyboardFallback
  | StatsTick
  | RestartKeyboardRequest
  | Quit
  | SerialUpdate serial_manager
  | KeyboardUpdate keyboard_monitor
  | WindowChange bool

fun step :: "env \<Rightarrow> event \<Rightarrow> main_state \<Rightarrow> main_state" where
  "step e Suspend s = on_suspend e s"
| "step e Resume s = on_resume e s"
| "step e (TimerFires h) s = timer_fires e h s"
| "step e (ConnectionChange data) s = on_connection_change data s"
| "step e (SystemStats stats) s = on_system_stats stats s"
| "step e (TypingStats stats) s = on_typing_stats stats s"
| "step e KeyboardFallback s = on_keyboard_fallback s"
| "step e StatsTick s = statsInterval_tick s"
| "step e RestartKeyboardRequest s = snd (ipc_restart_keyboard_monitoring e s)"
| "step e Quit s = cleanupPowerHandlers s"
| "step e (SerialUpdate m) s =
     (if esp32SerialManager s = None then s else s \<lparr> esp32SerialManager := Some m \<rparr>)"
| "step e (KeyboardUpdate km) s =
     (if keyboardMonitor s = None then s else s \<lparr> keyboardMonitor := Some km \<rparr>)"
| "step e (WindowChange w) s = s \<lparr> mainWindow := w \<rparr>"

fun run :: "(env \<times> event) list \<Rightarrow> main_state \<Rightarrow> main_state" where
  "run [] s = s"
| "run ((e, ev) # rest) s = run rest (step e ev s)"

section \<open>Observations on timers\<close>

text \<open>The timers of one retry state that are pending in the event loop, and the
  variable that holds the handle for that retry state.\<close>

definition pending_timers :: "timer_kind \<Rightarrow> main_state \<Rightarrow> timer list" where
  "pending_timers k s = filter (\<lambda>t. kind t = k) (timers s)"

definition timer_var :: "timer_kind \<Rightarrow> main_state \<Rightarrow> nat option" where
  "timer_var k s =
     (case k of ResumeReconnect \<Rightarrow> resumeReconnectTimer s
              | KeyboardRecovery \<Rightarrow> keyboardRecoveryTimer s)"

definition handle_issued :: "nat option \<Rightarrow> main_state \<Rightarrow> bool" where
  "handle_issued v s = (case v of None \<Rightarrow> True | Some h \<Rightarrow> h < nextHandle s)"

text \<open>Consistency of the timer bookkeeping: handles are unique and were issued by
  \<open>setTimeout\<close>, and a pending timer is referenced by the variable of its retry state.\<close>

definition timers_wf :: "main_state \<Rightarrow> bool" where
  "timers_wf s =
     (distinct (map handle (timers s)) \<and>
      list_all (\<lambda>t. timer_var (kind t) s = Some (handle t)) (timers s) \<and>
      handle_issued (resumeReconnectTimer s) s \<and>
      handle_issued (keyboardRecoveryTimer s) s \<and>
      (resumeReconnectTimer s = None \<or> resumeReconnectTimer s \<noteq> keyboardRecoveryTimer s))"

section \<open>Outcomes of an attempt\<close>

text \<open>Whether the awaited calls of a reconnection attempt for port \<open>pending\<close> end in
  its \<open>catch\<close> block, and likewise for a keyboard recovery attempt.\<close>

definition reconnect_fails :: "env \<Rightarrow> string \<Rightarrow> bool" where
  "reconnect_fails e pending =
     (case portsResult e of
        None \<Rightarrow> True
      | Some ports \<Rightarrow>
          (case find (\<lambda>p. path p = pending) ports of
             None \<Rightarrow> True
           | Some matchingPort \<Rightarrow>
               (case connectResult e of
                  ConnectThrows m' \<Rightarrow> True
                | ConnectReturns ok m' \<Rightarrow> False)))"

definition recovery_fails :: "env \<Rightarrow> bool" where
  "recovery_fails e =
     (case stopResult e of
        Throws km1 \<Rightarrow> True
      | Returns km1 \<Rightarrow> (case startResult e of Throws km2 \<Rightarrow> True | Returns km2 \<Rightarrow> False))"

section \<open>Latest snapshots, as the specification words them\<close>

text \<open>The most recent system-stats and typing-stats payloads among the events handled so
  far, starting from given snapshots.\<close>

fun spec_latest_system_stats :: "event list \<Rightarrow> system_stats \<Rightarrow> system_stats" where
  "spec_latest_system_stats [] cur = cur"
| "spec_latest_system_stats (SystemStats stats # evs) cur = spec_latest_system_stats evs stats"
| "spec_latest_system_stats (ev # evs) cur = spec_latest_system_stats evs cur"

fun spec_latest_typing_stats :: "event list \<Rightarrow> typing_stats \<Rightarrow> typing_stats" where
  "spec_latest_typing_stats [] cur = cur"
| "spec_latest_typing_stats (TypingStats stats # evs) cur = spec_latest_typing_stats evs stats"
| "spec_latest_typing_stats (ev # evs) cur = spec_latest_typing_stats evs cur"

section \<open>Example collaborators\<close>

definition serial_connected :: serial_manager where
  "serial_connected = \<lparr> isConnected = True, port = Some ''COM3'' \<rparr>"

definition serial_disconnected :: serial_manager where
  "serial_disconnected = \<lparr> isConnected = False, port = None \<rparr>"

definition session_42 :: typing_session where
  "session_42 = \<lparr> totalKeystrokes = 42, startTime = Some 1000, lastKeystrokeTime = 5000 \<rparr>"

definition session_fresh :: typing_session where
  "session_fresh = \<lparr> totalKeystrokes = 0, startTime = None, lastKeystrokeTime = 0 \<rparr>"

text \<open>A monitor running in fallback mode, the same monitor stopped, and a monitor as a
  successful start leaves it, with a new session.\<close>

definition km_fallback :: keyboard_monitor where
  "km_fallback = \<lparr> currentSession = Some session_42, keyboardListener = False,
                   fallbackMode = True, km_isActive = True \<rparr>"

definition km_stopped :: keyboard_monitor where
  "km_stopped = \<lparr> currentSession = Some session_42, keyboardListener = False,
                  fallbackMode = True, km_isActive = False \<rparr>"

definition km_fresh :: keyboard_monitor where
  "km_fresh = \<lparr> currentSession = Some session_fresh, keyboardListener = True,
                fallbackMode = False, km_isActive = True \<rparr>"

text \<open>Collaborators for which every attempt fails (no port enumerated, the listener
  cannot be started), and collaborators for which every attempt succeeds.\<close>

definition env_failing :: env where
  "env_failing = \<lparr> portsResult = Some [],
                   connectResult = ConnectThrows serial_disconnected,
                   disconnectResult = Returns serial_disconnected,
                   stopResult = Returns km_stopped,
                   startResult = Throws km_fallback \<rparr>"

definition env_working :: env where
  "env_working = \<lparr> portsResult = Some [\<lparr> path = ''COM3'', manufacturer = ''Espressif'' \<rparr>],
                   connectResult = ConnectReturns True serial_connected,
                   disconnectResult = Returns serial_disconnected,
                   stopResult = Returns km_stopped,
                   startResult = Returns km_fresh \<rparr>"

text \<open>A state in which both retry states have a timer pending: handle 0 for the
  device, handle 1 for the keyboard.\<close>

definition state_with_timers :: main_state where
  "state_with_timers =
     scheduleKeyboardRecovery 2000
       (scheduleResumeReconnect 1000
          (initial_state (Some serial_disconnected) (Some km_fallback)))"

text \<open>A state about to make the third attempt of both retry states, with the port
  \<open>COM3\<close> remembered.\<close>

definition state_third_attempt :: main_state where
  "state_third_attempt =
     (initial_state (Some serial_disconnected) (Some km_fallback))
       \<lparr> pendingResumePort := Some ''COM3'',
         resumeReconnectAttempts := 2,
         keyboardRecoveryAttempts := 2 \<rparr>"

text \<open>The retry budget of the device: the counter is within the limit, and below it while
  a reconnection timer is pending.\<close>

definition device_budget :: "main_state \<Rightarrow> bool" where
  "device_budget s =
     (resumeReconnectAttempts s \<le> RESUME_RETRY_LIMIT \<and>
      (pending_timers ResumeReconnect s \<noteq> [] \<longrightarrow>
         resumeReconnectAttempts s < RESUME_RETRY_LIMIT))"

text \<open>States right after initialisation, with the listener in fallback mode and with
  the listener stopped.\<close>

definition state_fallback :: main_state where
  "state_fallback = initial_state (Some serial_disconnected) (Some km_fallback)"

definition state_stopped :: main_state where
  "state_stopped = initial_state (Some serial_disconnected) (Some km_stopped)"




text \<open>The device becomes connected, both collaborators report statistics, a tick passes
  and the system monitor reports again.\<close>

definition stats_trace :: "(env \<times> event) list" where
  "stats_trace =
     [(env_working, SerialUpdate serial_connected),
      (env_working, SystemStats \<lparr> cpu = 10, memory = 40 \<rparr>),
      (env_working, TypingStats \<lparr> wpm = 55, isActive = True \<rparr>),
      (env_working, StatsTick),
      (env_working, SystemStats \<lparr> cpu = 30, memory = 41 \<rparr>)]"

section \<open>Properties of the system monitor\<close>

lemma constructed_member_is_number:
  "updateInterval SystemMonitor_constructor = NumberValue 1000"
  by (simp add: SystemMonitor_constructor_def)

lemma start_stop_keep_number:
  "updateInterval m = NumberValue v \<Longrightarrow>
     (\<exists>w. updateInterval (sm_startMonitoring i m) = NumberValue w) \<and>
     updateInterval (sm_stopMonitoring m) = NumberValue v"
  by (simp add: sm_startMonitoring_def sm_stopMonitoring_def)

lemma updateInterval_method_in_range:
  "100 \<le> ms \<Longrightarrow> ms \<le> 10000 \<Longrightarrow>
     \<exists>m'. updateInterval_method ms m = Inr m' \<and> updateInterval m' = NumberValue ms"
  by (simp add: updateInterval_method_def Let_def sm_startMonitoring_def sm_stopMonitoring_def)

lemma updateInterval_method_out_of_range:
  "ms < 100 \<or> 10000 < ms \<Longrightarrow> updateInterval_method ms m = Inl IntervalOutOfRange"
  by (auto simp add: updateInterval_method_def)

text \<open>Every instance the constructor builds, however often it is started and stopped,
  rejects the call, whatever the argument.\<close>

lemma call_on_number_member_throws:
  "updateInterval m = NumberValue v \<Longrightarrow> call_updateInterval m ms = Inl NotAFunction"
  by (simp add: call_updateInterval_def)

text \<open>
  Claim C9.  The claim says that \<open>updateInterval(ms)\<close> throws outside \<open>[100, 10000]\<close>
  and succeeds inside, updating the interval.  On an instance built by the constructor
  (also after it has been started with 2000 ms, as the application does), the call with
  the in-range value 500 throws: the member found is the number written by the
  constructor, not the method.  The method body, could it be reached, would set the
  interval to 500; through the settings handler the monitor stays at 2000 ms.
\<close>

theorem updateInterval_call_in_range_throws:
  "call_updateInterval SystemMonitor_constructor 500 = Inl NotAFunction \<and>
   call_updateInterval (sm_startMonitoring 2000 SystemMonitor_constructor) 500 = Inl NotAFunction \<and>
   updateInterval_method 500 (sm_startMonitoring 2000 SystemMonitor_constructor)
     = Inr \<lparr> isMonitoring = True, monitoringInterval = Some 500, updateInterval = NumberValue 500 \<rparr> \<and>
   apply_updateInterval_setting (Some 500) (Some (sm_startMonitoring 2000 SystemMonitor_constructor))
     = Some \<lparr> isMonitoring = True, monitoringInterval = Some 2000,
              updateInterval = NumberValue 2000 \<rparr>"
  by (simp add: call_updateInterval_def SystemMonitor_constructor_def SystemMonitor_blank_def
      sm_startMonitoring_def sm_stopMonitoring_def updateInterval_method_def
      apply_updateInterval_setting_def sm_isActive_def Let_def)

section \<open>Timer bookkeeping\<close>

text \<open>Updates of fields that the timer bookkeeping does not read.\<close>

lemma timer_var_frame [simp]:
  "timer_var kk (s\<lparr>mainWindow := a\<rparr>) = timer_var kk s"
  "timer_var kk (s\<lparr>esp32SerialManager := b\<rparr>) = timer_var kk s"
  "timer_var kk (s\<lparr>keyboardMonitor := c\<rparr>) = timer_var kk s"
  "timer_var kk (s\<lparr>systemSuspended := d\<rparr>) = timer_var kk s"
  "timer_var kk (s\<lparr>pendingResumePort := f\<rparr>) = timer_var kk s"
  "timer_var kk (s\<lparr>resumeReconnectAttempts := g\<rparr>) = timer_var kk s"
  "timer_var kk (s\<lparr>keyboardRecoveryAttempts := i\<rparr>) = timer_var kk s"
  "timer_var kk (s\<lparr>lastSystemStats := j\<rparr>) = timer_var kk s"
  "timer_var kk (s\<lparr>lastTypingStats := k\<rparr>) = timer_var kk s"
  "timer_var kk (s\<lparr>calls := l\<rparr>) = timer_var kk s"
  "timer_var kk (record_call c' s) = timer_var kk s"
  by (simp_all add: timer_var_def record_call_def split: timer_kind.splits)

lemma handle_issued_frame [simp]:
  "handle_issued v (s\<lparr>mainWindow := a\<rparr>) = handle_issued v s"
  "handle_issued v (s\<lparr>esp32SerialManager := b\<rparr>) = handle_issued v s"
  "handle_issued v (s\<lparr>keyboardMonitor := c\<rparr>) = handle_issued v s"
  "handle_issued v (s\<lparr>systemSuspended := d\<rparr>) = handle_issued v s"
  "handle_issued v (s\<lparr>pendingResumePort := f\<rparr>) = handle_issued v s"
  "handle_issued v (s\<lparr>resumeReconnectAttempts := g\<rparr>) = handle_issued v s"
  "handle_issued v (s\<lparr>keyboardRecoveryAttempts := i\<rparr>) = handle_issued v s"
  "handle_issued v (s\<lparr>lastSystemStats := j\<rparr>) = handle_issued v s"
  "handle_issued v (s\<lparr>lastTypingStats := k\<rparr>) = handle_issued v s"
  "handle_issued v (s\<lparr>calls := l\<rparr>) = handle_issued v s"
  "handle_issued v (record_call c' s) = handle_issued v s"
  by (simp_all add: handle_issued_def record_call_def split: option.splits)

lemma pending_frame [simp]:
  "pending_timers kk (s\<lparr>mainWindow := a\<rparr>) = pending_timers kk s"
  "pending_timers kk (s\<lparr>esp32SerialManager := b\<rparr>) = pending_timers kk s"
  "pending_timers kk (s\<lparr>keyboardMonitor := c\<rparr>) = pending_timers kk s"
  "pending_timers kk (s\<lparr>systemSuspended := d\<rparr>) = pending_timers kk s"
  "pending_timers kk (s\<lparr>pendingResumePort := f\<rparr>) = pending_timers kk s"
  "pending_timers kk (s\<lparr>resumeReconnectAttempts := g\<rparr>) = pending_timers kk s"
  "pending_timers kk (s\<lparr>keyboardRecoveryAttempts := i\<rparr>) = pending_timers kk s"
  "pending_timers kk (s\<lparr>lastSystemStats := j\<rparr>) = pending_timers kk s"
  "pending_timers kk (s\<lparr>lastTypingStats := k\<rparr>) = pending_timers kk s"
  "pending_timers kk (s\<lparr>calls := l\<rparr>) = pending_timers kk s"
  "pending_timers kk (record_call c' s) = pending_timers kk s"
  by (simp_all add: pending_timers_def record_call_def)

lemma wf_frame [simp]:
  "timers_wf (s\<lparr>mainWindow := a\<rparr>) = timers_wf s"
  "timers_wf (s\<lparr>esp32SerialManager := b\<rparr>) = timers_wf s"
  "timers_wf (s\<lparr>keyboardMonitor := c\<rparr>) = timers_wf s"
  "timers_wf (s\<lparr>systemSuspended := d\<rparr>) = timers_wf s"
  "timers_wf (s\<lparr>pendingResumePort := f\<rparr>) = timers_wf s"
  "timers_wf (s\<lparr>resumeReconnectAttempts := g\<rparr>) = timers_wf s"
  "timers_wf (s\<lparr>keyboardRecoveryAttempts := i\<rparr>) = timers_wf s"
  "timers_wf (s\<lparr>lastSystemStats := j\<rparr>) = timers_wf s"
  "timers_wf (s\<lparr>lastTypingStats := k\<rparr>) = timers_wf s"
  "timers_wf (s\<lparr>calls := l\<rparr>) = timers_wf s"
  "timers_wf (record_call c' s) = timers_wf s"
  by (simp_all add: timers_wf_def record_call_def)

lemma pending_nil_iff: "pending_timers k s = [] \<longleftrightarrow> (\<forall>t\<in>set (timers s). kind t \<noteq> k)"
  by (auto simp: pending_timers_def filter_empty_conv)

lemma wf_clearRR: "timers_wf s \<Longrightarrow> timers_wf (clearResumeReconnectTimer s)"
  by (auto simp: timers_wf_def clearResumeReconnectTimer_def clearTimeout_def handle_issued_def
      timer_var_def list_all_iff distinct_map_filter split: option.splits timer_kind.splits)

lemma wf_clearKR: "timers_wf s \<Longrightarrow> timers_wf (clearKeyboardRecoveryTimer s)"
  by (auto simp: timers_wf_def clearKeyboardRecoveryTimer_def clearTimeout_def handle_issued_def
      timer_var_def list_all_iff distinct_map_filter split: option.splits timer_kind.splits)

lemma pending_clearRR: "timers_wf s \<Longrightarrow> pending_timers ResumeReconnect (clearResumeReconnectTimer s) = []"
  by (auto simp: pending_nil_iff timers_wf_def clearResumeReconnectTimer_def clearTimeout_def
      timer_var_def list_all_iff split: option.splits timer_kind.splits)

lemma pending_clearKR: "timers_wf s \<Longrightarrow> pending_timers KeyboardRecovery (clearKeyboardRecoveryTimer s) = []"
  by (auto simp: pending_nil_iff timers_wf_def clearKeyboardRecoveryTimer_def clearTimeout_def
      timer_var_def list_all_iff split: option.splits timer_kind.splits)

lemma pending_clearRR_other: "timers_wf s \<Longrightarrow> pending_timers KeyboardRecovery (clearResumeReconnectTimer s) = pending_timers KeyboardRecovery s"
  apply (auto simp: pending_timers_def timers_wf_def clearResumeReconnectTimer_def clearTimeout_def
      timer_var_def list_all_iff split: option.splits timer_kind.splits intro!: filter_cong)
  done


lemma wf_handle_lt: "timers_wf s \<Longrightarrow> \<forall>t\<in>set (timers s). handle t < nextHandle s"
proof
  fix t assume "timers_wf s" "t \<in> set (timers s)"
  then show "handle t < nextHandle s"
    by (cases "kind t") (auto simp: timers_wf_def handle_issued_def timer_var_def list_all_iff)
qed

lemma wf_schedRR: "timers_wf s \<Longrightarrow> timers_wf (scheduleResumeReconnect d s)"
  using wf_handle_lt[of s]
  apply (auto simp: timers_wf_def scheduleResumeReconnect_def setTimeout_def clearResumeReconnectTimer_def clearTimeout_def handle_issued_def
      timer_var_def list_all_iff distinct_map_filter split: option.splits timer_kind.splits)
  done

lemma wf_schedKR: "timers_wf s \<Longrightarrow> timers_wf (scheduleKeyboardRecovery d s)"
  using wf_handle_lt[of s]
  apply (auto simp: timers_wf_def scheduleKeyboardRecovery_def setTimeout_def clearKeyboardRecoveryTimer_def clearTimeout_def handle_issued_def
      timer_var_def list_all_iff distinct_map_filter split: option.splits timer_kind.splits)
  done

lemma wf_remove: "timers_wf s \<Longrightarrow> timers_wf (s\<lparr>timers := filter P (timers s)\<rparr>)"
  by (auto simp: timers_wf_def timer_var_def handle_issued_def list_all_iff distinct_map_filter
      split: timer_kind.splits option.splits)

lemma wf_initial: "timers_wf (initial_state esp km)"
  by (simp add: timers_wf_def initial_state_def handle_issued_def)

lemma wf_attemptRR_catch: "timers_wf s \<Longrightarrow> timers_wf (attemptResumeReconnect_catch n s)"
  by (simp add: attemptResumeReconnect_catch_def wf_clearRR wf_schedRR)

lemma wf_attemptKR_catch: "timers_wf s \<Longrightarrow> timers_wf (attemptKeyboardRecovery_catch n s)"
  by (simp add: attemptKeyboardRecovery_catch_def wf_clearKR wf_schedKR)

lemma wf_attemptRR: "timers_wf s \<Longrightarrow> timers_wf (attemptResumeReconnect e s)"
  by (simp add: attemptResumeReconnect_def Let_def wf_clearRR wf_attemptRR_catch
      split: option.splits connect_outcome.splits)

lemma wf_attemptKR: "timers_wf s \<Longrightarrow> timers_wf (attemptKeyboardRecovery e s)"
  by (simp add: attemptKeyboardRecovery_def Let_def wf_clearKR wf_attemptKR_catch
      split: option.splits outcome.splits)

lemma wf_restart: "timers_wf s \<Longrightarrow> timers_wf (snd (restartKeyboardMonitoring e f s))"
  by (simp add: restartKeyboardMonitoring_def Let_def wf_clearKR
      split: option.splits outcome.splits prod.splits)

lemma wf_ipc: "timers_wf s \<Longrightarrow> timers_wf (snd (ipc_restart_keyboard_monitoring e s))"
  using wf_restart[of "clearKeyboardRecoveryTimer (s\<lparr>keyboardRecoveryAttempts := 0\<rparr>)" e True]
  by (auto simp add: ipc_restart_keyboard_monitoring_def Let_def wf_clearKR wf_schedKR
      split: option.splits prod.splits)

lemma wf_step: "timers_wf s \<Longrightarrow> timers_wf (step e ev s)"
proof (cases ev)
  case Suspend
  assume "timers_wf s"
  then show ?thesis using Suspend
    by (simp add: on_suspend_def Let_def wf_clearRR split: option.splits)
next
  case Resume
  assume "timers_wf s"
  then show ?thesis using Resume
    by (simp add: on_resume_def Let_def wf_restart wf_schedRR)
next
  case (TimerFires h)
  assume "timers_wf s"
  then show ?thesis using TimerFires
    by (simp add: timer_fires_def Let_def wf_remove wf_attemptRR wf_attemptKR
        split: option.splits timer_kind.splits)
next
  case KeyboardFallback
  assume "timers_wf s"
  then show ?thesis using KeyboardFallback
    by (simp add: on_keyboard_fallback_def Let_def wf_schedKR)
next
  case RestartKeyboardRequest
  assume "timers_wf s"
  then show ?thesis using RestartKeyboardRequest by (simp add: wf_ipc)
next
  case Quit
  assume "timers_wf s"
  then show ?thesis using Quit by (simp add: cleanupPowerHandlers_def wf_clearRR wf_clearKR)
qed (simp_all add: on_connection_change_def on_system_stats_def on_typing_stats_def
      statsInterval_tick_def Let_def split: option.splits)

lemma wf_run: "timers_wf s \<Longrightarrow> timers_wf (run evs s)"
  by (induction evs arbitrary: s) (auto simp: wf_step)

lemma wf_at_most_one: "timers_wf s \<Longrightarrow> length (pending_timers k s) \<le> 1"
proof -
  assume wf: "timers_wf s"
  have d: "distinct (map handle (pending_timers k s))"
    using wf by (simp add: timers_wf_def pending_timers_def distinct_map_filter)
  have same: "\<forall>t\<in>set (pending_timers k s). Some (handle t) = timer_var k s"
    using wf by (auto simp: timers_wf_def pending_timers_def list_all_iff)
  show ?thesis
  proof (cases "pending_timers k s")
    case Nil then show ?thesis by simp
  next
    case (Cons a r)
    show ?thesis
    proof (cases r)
      case Nil with Cons show ?thesis by simp
    next
      case (Cons b r')
      with \<open>pending_timers k s = a # r\<close> d same show ?thesis by (auto, metis option.inject)
    qed
  qed
qed

lemma clearRR_idem: "clearResumeReconnectTimer (clearResumeReconnectTimer s) = clearResumeReconnectTimer s"
  by (simp add: clearResumeReconnectTimer_def clearTimeout_def split: option.splits)

lemma clearKR_idem: "clearKeyboardRecoveryTimer (clearKeyboardRecoveryTimer s) = clearKeyboardRecoveryTimer s"
  by (simp add: clearKeyboardRecoveryTimer_def clearTimeout_def split: option.splits)

lemma clearRR_var: "resumeReconnectTimer (clearResumeReconnectTimer s) = None"
  by (simp add: clearResumeReconnectTimer_def clearTimeout_def split: option.splits)

lemma clearKR_var: "keyboardRecoveryTimer (clearKeyboardRecoveryTimer s) = None"
  by (simp add: clearKeyboardRecoveryTimer_def clearTimeout_def split: option.splits)

lemma clearRR_noop: "resumeReconnectTimer s = None \<Longrightarrow> clearResumeReconnectTimer s = s"
  by (simp add: clearResumeReconnectTimer_def)

lemma clearKR_noop: "keyboardRecoveryTimer s = None \<Longrightarrow> clearKeyboardRecoveryTimer s = s"
  by (simp add: clearKeyboardRecoveryTimer_def)

lemma pending_schedRR:
  "timers_wf s \<Longrightarrow> \<not> systemSuspended s \<Longrightarrow>
   pending_timers ResumeReconnect (scheduleResumeReconnect d s)
     = [\<lparr> handle = nextHandle s, kind = ResumeReconnect, delay = d \<rparr>] \<and>
   resumeReconnectTimer (scheduleResumeReconnect d s) = Some (nextHandle s)"
  using pending_clearRR[of s]
  by (simp add: scheduleResumeReconnect_def setTimeout_def pending_timers_def
      clearResumeReconnectTimer_def clearTimeout_def split: option.splits)

lemma pending_schedKR:
  "timers_wf s \<Longrightarrow> \<not> systemSuspended s \<Longrightarrow> keyboardMonitor s \<noteq> None \<Longrightarrow>
   pending_timers KeyboardRecovery (scheduleKeyboardRecovery d s)
     = [\<lparr> handle = nextHandle s, kind = KeyboardRecovery, delay = d \<rparr>] \<and>
   keyboardRecoveryTimer (scheduleKeyboardRecovery d s) = Some (nextHandle s)"
  using pending_clearKR[of s]
  by (simp add: scheduleKeyboardRecovery_def setTimeout_def pending_timers_def
      clearKeyboardRecoveryTimer_def clearTimeout_def split: option.splits)

lemma sched_suspended:
  "systemSuspended s \<Longrightarrow> scheduleResumeReconnect d s = s \<and> scheduleKeyboardRecovery d s = s"
  by (simp add: scheduleResumeReconnect_def scheduleKeyboardRecovery_def)

lemmas model_defs =
  initial_state_def timers_wf_def timer_var_def handle_issued_def pending_timers_def
  setTimeout_def clearTimeout_def record_call_def state_after_def truthy_def or_zero_def
  clearResumeReconnectTimer_def clearKeyboardRecoveryTimer_def
  scheduleResumeReconnect_def scheduleKeyboardRecovery_def
  attemptResumeReconnect_def attemptResumeReconnect_catch_def
  attemptKeyboardRecovery_def attemptKeyboardRecovery_catch_def
  restartKeyboardMonitoring_def splice_session_def ipc_restart_keyboard_monitoring_def
  on_connection_change_def on_system_stats_def on_typing_stats_def on_keyboard_fallback_def
  statsInterval_tick_def on_suspend_def on_resume_def cleanupPowerHandlers_def timer_fires_def
  reconnect_fails_def recovery_fails_def
  env_failing_def env_working_def km_fallback_def km_stopped_def km_fresh_def
  session_42_def session_fresh_def serial_connected_def serial_disconnected_def
  RESUME_RETRY_BASE_DELAY_MS_def RESUME_RETRY_MAX_DELAY_MS_def RESUME_RETRY_LIMIT_def
  KEYBOARD_RECOVERY_BASE_DELAY_MS_def KEYBOARD_RECOVERY_MAX_DELAY_MS_def
  KEYBOARD_RECOVERY_LIMIT_def Let_def

section \<open>Cancelling and scheduling\<close>

text \<open>
  Claim C8.  Cancelling a retry timer is idempotent: a second cancel changes nothing,
  the handle variable is \<open>null\<close> afterwards, and cancelling when the variable is already
  \<open>null\<close> leaves the state as it is.  A schedule that arms a timer (the system is not
  suspended and, for the keyboard, the monitor exists) first cancels the pending one, so
  that the new timer is the only one pending for its retry state and the variable holds
  its handle.  Over every sequence of events from a consistent state, at most one timer
  is pending per retry state.
\<close>

theorem cancel_idempotent_single_timer:
  "clearResumeReconnectTimer (clearResumeReconnectTimer s) = clearResumeReconnectTimer s \<and>
   clearKeyboardRecoveryTimer (clearKeyboardRecoveryTimer s) = clearKeyboardRecoveryTimer s \<and>
   resumeReconnectTimer (clearResumeReconnectTimer s) = None \<and>
   keyboardRecoveryTimer (clearKeyboardRecoveryTimer s) = None \<and>
   (resumeReconnectTimer s = None \<longrightarrow> clearResumeReconnectTimer s = s) \<and>
   (keyboardRecoveryTimer s = None \<longrightarrow> clearKeyboardRecoveryTimer s = s) \<and>
   (timers_wf s \<and> \<not> systemSuspended s \<longrightarrow>
      pending_timers ResumeReconnect (scheduleResumeReconnect d s)
        = [\<lparr> handle = nextHandle s, kind = ResumeReconnect, delay = d \<rparr>] \<and>
      resumeReconnectTimer (scheduleResumeReconnect d s) = Some (nextHandle s)) \<and>
   (timers_wf s \<and> \<not> systemSuspended s \<and> keyboardMonitor s \<noteq> None \<longrightarrow>
      pending_timers KeyboardRecovery (scheduleKeyboardRecovery d s)
        = [\<lparr> handle = nextHandle s, kind = KeyboardRecovery, delay = d \<rparr>] \<and>
      keyboardRecoveryTimer (scheduleKeyboardRecovery d s) = Some (nextHandle s)) \<and>
   (timers_wf s \<longrightarrow> length (pending_timers k (run evs s)) \<le> 1)"
  using clearRR_idem clearKR_idem clearRR_var clearKR_var clearRR_noop clearKR_noop
    pending_schedRR pending_schedKR wf_at_most_one[OF wf_run]
  by blast

theorem cancel_idempotent_single_timer_witness:
  "timers_wf state_with_timers \<and> \<not> systemSuspended state_with_timers \<and>
   keyboardMonitor state_with_timers \<noteq> None \<and>
   pending_timers ResumeReconnect state_with_timers
     = [\<lparr> handle = 0, kind = ResumeReconnect, delay = 1000 \<rparr>] \<and>
   pending_timers ResumeReconnect (scheduleResumeReconnect 4000 state_with_timers)
     = [\<lparr> handle = 2, kind = ResumeReconnect, delay = 4000 \<rparr>] \<and>
   pending_timers KeyboardRecovery (scheduleKeyboardRecovery 4000 state_with_timers)
     = [\<lparr> handle = 2, kind = KeyboardRecovery, delay = 4000 \<rparr>] \<and>
   resumeReconnectTimer (clearResumeReconnectTimer state_with_timers) = None \<and>
   clearResumeReconnectTimer (clearResumeReconnectTimer state_with_timers)
     = clearResumeReconnectTimer state_with_timers \<and>
   length (pending_timers KeyboardRecovery
             (run [(env_failing, TimerFires 1), (env_failing, KeyboardFallback)]
                  state_with_timers)) \<le> 1"
proof -
  have wf: "timers_wf state_with_timers"
    by (simp add: state_with_timers_def model_defs)
  have ns: "\<not> systemSuspended state_with_timers"
    by (simp add: state_with_timers_def model_defs)
  have km: "keyboardMonitor state_with_timers \<noteq> None"
    by (simp add: state_with_timers_def model_defs)
  have nh: "nextHandle state_with_timers = 2"
    by (simp add: state_with_timers_def model_defs)
  have p: "pending_timers ResumeReconnect state_with_timers
             = [\<lparr> handle = 0, kind = ResumeReconnect, delay = 1000 \<rparr>]"
    by (simp add: state_with_timers_def model_defs)
  from cancel_idempotent_single_timer
         [of state_with_timers 4000 KeyboardRecovery
             "[(env_failing, TimerFires 1), (env_failing, KeyboardFallback)]"]
       wf ns km nh p
  show ?thesis by simp
qed

section \<open>Backoff delays\<close>

lemma catchRR_below_limit:
  "timers_wf s \<Longrightarrow> \<not> systemSuspended s \<Longrightarrow> n < RESUME_RETRY_LIMIT \<Longrightarrow>
   pending_timers ResumeReconnect (attemptResumeReconnect_catch n s)
     = [\<lparr> handle = nextHandle s, kind = ResumeReconnect,
          delay = min (1000 * 2 ^ (n - 1)) 30000 \<rparr>] \<and>
   resumeReconnectAttempts (attemptResumeReconnect_catch n s) = resumeReconnectAttempts s"
  by (simp add: attemptResumeReconnect_catch_def pending_schedRR RESUME_RETRY_BASE_DELAY_MS_def
        RESUME_RETRY_MAX_DELAY_MS_def)
     (simp add: scheduleResumeReconnect_def setTimeout_def clearResumeReconnectTimer_def
        clearTimeout_def split: option.splits)

lemma catchKR_below_limit:
  "timers_wf s \<Longrightarrow> \<not> systemSuspended s \<Longrightarrow> keyboardMonitor s \<noteq> None \<Longrightarrow>
   n < KEYBOARD_RECOVERY_LIMIT \<Longrightarrow>
   pending_timers KeyboardRecovery (attemptKeyboardRecovery_catch n s)
     = [\<lparr> handle = nextHandle s, kind = KeyboardRecovery,
          delay = min (2000 * 2 ^ (n - 1)) 60000 \<rparr>] \<and>
   keyboardRecoveryAttempts (attemptKeyboardRecovery_catch n s) = keyboardRecoveryAttempts s"
  by (simp add: attemptKeyboardRecovery_catch_def pending_schedKR KEYBOARD_RECOVERY_BASE_DELAY_MS_def
        KEYBOARD_RECOVERY_MAX_DELAY_MS_def)
     (simp add: scheduleKeyboardRecovery_def setTimeout_def clearKeyboardRecoveryTimer_def
        clearTimeout_def split: option.splits)

lemma attemptRR_fails_delay:
  assumes "timers_wf s" "pendingResumePort s = Some p" "p \<noteq> []" "esp32SerialManager s = Some m"
    "\<not> isConnected m" "\<not> systemSuspended s" "reconnect_fails e p"
    "resumeReconnectAttempts s + 1 < RESUME_RETRY_LIMIT"
  shows "pending_timers ResumeReconnect (attemptResumeReconnect e s)
           = [\<lparr> handle = nextHandle s, kind = ResumeReconnect,
                delay = min (1000 * 2 ^ resumeReconnectAttempts s) 30000 \<rparr>] \<and>
         resumeReconnectAttempts (attemptResumeReconnect e s) = resumeReconnectAttempts s + 1"
  using assms
  by (auto simp add: attemptResumeReconnect_def reconnect_fails_def Let_def record_call_def
      catchRR_below_limit split: option.splits connect_outcome.splits)

lemma attemptKR_fails_delay:
  assumes "timers_wf s" "keyboardMonitor s = Some km" "\<not> (keyboardListener km \<and> \<not> fallbackMode km)"
    "\<not> systemSuspended s" "recovery_fails e"
    "keyboardRecoveryAttempts s + 1 < KEYBOARD_RECOVERY_LIMIT"
  shows "pending_timers KeyboardRecovery (attemptKeyboardRecovery e s)
           = [\<lparr> handle = nextHandle s, kind = KeyboardRecovery,
                delay = min (2000 * 2 ^ keyboardRecoveryAttempts s) 60000 \<rparr>] \<and>
         keyboardRecoveryAttempts (attemptKeyboardRecovery e s) = keyboardRecoveryAttempts s + 1"
  using assms
  by (auto simp add: attemptKeyboardRecovery_def recovery_fails_def Let_def record_call_def
      catchKR_below_limit split: option.splits outcome.splits)

text \<open>
  Claim C1.  When the \<open>n\<close>-th attempt of a retry state fails and \<open>1 \<le> n < limit\<close>, the
  timer armed for the next attempt has delay \<open>min (base * 2 ^ (n - 1)) max\<close>: base 1000
  and maximum 30000 for the device (limit 10), base 2000 and maximum 60000 for the
  keyboard listener (limit 5).  The \<open>n\<close>-th attempt is the one that starts with the
  counter at \<open>n - 1\<close>; arming presupposes that the system is not suspended.  For the
  device the delays after attempts 1 to 9 are 1000, 2000, 4000, 8000, 16000 and then
  30000.
\<close>

theorem backoff_delay_after_failed_attempt:
  assumes "timers_wf s" and "\<not> systemSuspended s" and "1 \<le> n"
  shows "(pendingResumePort s = Some p \<and> p \<noteq> [] \<and> esp32SerialManager s = Some m \<and>
          \<not> isConnected m \<and> reconnect_fails e p \<and>
          resumeReconnectAttempts s = n - 1 \<and> n < RESUME_RETRY_LIMIT \<longrightarrow>
            map delay (pending_timers ResumeReconnect (attemptResumeReconnect e s))
              = [min (1000 * 2 ^ (n - 1)) 30000] \<and>
            resumeReconnectAttempts (attemptResumeReconnect e s) = n) \<and>
         (keyboardMonitor s = Some km \<and> \<not> (keyboardListener km \<and> \<not> fallbackMode km) \<and>
          recovery_fails e \<and>
          keyboardRecoveryAttempts s = n - 1 \<and> n < KEYBOARD_RECOVERY_LIMIT \<longrightarrow>
            map delay (pending_timers KeyboardRecovery (attemptKeyboardRecovery e s))
              = [min (2000 * 2 ^ (n - 1)) 60000] \<and>
            keyboardRecoveryAttempts (attemptKeyboardRecovery e s) = n) \<and>
         map (\<lambda>i. map delay (pending_timers ResumeReconnect (attemptResumeReconnect_catch i s)))
             [1, 2, 3, 4, 5, 6, 7, 8, 9]
           = [[1000], [2000], [4000], [8000], [16000], [30000], [30000], [30000], [30000]]"
proof (intro conjI impI)
  assume h: "pendingResumePort s = Some p \<and> p \<noteq> [] \<and> esp32SerialManager s = Some m \<and>
          \<not> isConnected m \<and> reconnect_fails e p \<and>
          resumeReconnectAttempts s = n - 1 \<and> n < RESUME_RETRY_LIMIT"
  with assms have "resumeReconnectAttempts s + 1 < RESUME_RETRY_LIMIT" by simp
  from attemptRR_fails_delay[OF assms(1) _ _ _ _ assms(2) _ this, of p m e] h assms(3)
  show "map delay (pending_timers ResumeReconnect (attemptResumeReconnect e s))
              = [min (1000 * 2 ^ (n - 1)) 30000]"
    and "resumeReconnectAttempts (attemptResumeReconnect e s) = n"
    by simp_all
next
  assume h: "keyboardMonitor s = Some km \<and> \<not> (keyboardListener km \<and> \<not> fallbackMode km) \<and>
          recovery_fails e \<and>
          keyboardRecoveryAttempts s = n - 1 \<and> n < KEYBOARD_RECOVERY_LIMIT"
  with assms have "keyboardRecoveryAttempts s + 1 < KEYBOARD_RECOVERY_LIMIT" by simp
  from attemptKR_fails_delay[OF assms(1) _ _ assms(2) _ this, of km e] h assms(3)
  show "map delay (pending_timers KeyboardRecovery (attemptKeyboardRecovery e s))
              = [min (2000 * 2 ^ (n - 1)) 60000]"
    and "keyboardRecoveryAttempts (attemptKeyboardRecovery e s) = n"
    by simp_all
next
  show "map (\<lambda>i. map delay (pending_timers ResumeReconnect (attemptResumeReconnect_catch i s)))
             [1, 2, 3, 4, 5, 6, 7, 8, 9]
           = [[1000], [2000], [4000], [8000], [16000], [30000], [30000], [30000], [30000]]"
    using assms(1,2) by (simp add: catchRR_below_limit RESUME_RETRY_LIMIT_def)
qed

theorem backoff_delay_after_failed_attempt_witness:
  "timers_wf state_third_attempt \<and> \<not> systemSuspended state_third_attempt \<and>
   reconnect_fails env_failing ''COM3'' \<and> recovery_fails env_failing \<and>
   map delay (pending_timers ResumeReconnect
                (attemptResumeReconnect env_failing state_third_attempt)) = [4000] \<and>
   resumeReconnectAttempts (attemptResumeReconnect env_failing state_third_attempt) = 3 \<and>
   map delay (pending_timers KeyboardRecovery
                (attemptKeyboardRecovery env_failing state_third_attempt)) = [8000] \<and>
   keyboardRecoveryAttempts (attemptKeyboardRecovery env_failing state_third_attempt) = 3"
proof -
  have wf: "timers_wf state_third_attempt"
    by (simp add: state_third_attempt_def model_defs)
  have ns: "\<not> systemSuspended state_third_attempt"
    by (simp add: state_third_attempt_def model_defs)
  have f: "reconnect_fails env_failing ''COM3''" "recovery_fails env_failing"
    by (simp_all add: model_defs)
  have st: "pendingResumePort state_third_attempt = Some ''COM3''"
    "esp32SerialManager state_third_attempt = Some serial_disconnected"
    "keyboardMonitor state_third_attempt = Some km_fallback"
    "resumeReconnectAttempts state_third_attempt = 2"
    "keyboardRecoveryAttempts state_third_attempt = 2"
    by (simp_all add: state_third_attempt_def initial_state_def)
  have c: "\<not> isConnected serial_disconnected"
    "\<not> (keyboardListener km_fallback \<and> \<not> fallbackMode km_fallback)"
    by (simp_all add: serial_disconnected_def km_fallback_def)
  from backoff_delay_after_failed_attempt
         [OF wf ns, of 3 "''COM3''" serial_disconnected env_failing km_fallback]
       wf ns f st c
  show ?thesis
    by (simp add: RESUME_RETRY_LIMIT_def KEYBOARD_RECOVERY_LIMIT_def)
qed

section \<open>Independence of the two retry states\<close>

lemma record_call_fields [simp]:
  "mainWindow (record_call c s) = mainWindow s"
  "esp32SerialManager (record_call c s) = esp32SerialManager s"
  "keyboardMonitor (record_call c s) = keyboardMonitor s"
  "systemSuspended (record_call c s) = systemSuspended s"
  "pendingResumePort (record_call c s) = pendingResumePort s"
  "resumeReconnectTimer (record_call c s) = resumeReconnectTimer s"
  "resumeReconnectAttempts (record_call c s) = resumeReconnectAttempts s"
  "keyboardRecoveryTimer (record_call c s) = keyboardRecoveryTimer s"
  "keyboardRecoveryAttempts (record_call c s) = keyboardRecoveryAttempts s"
  "lastSystemStats (record_call c s) = lastSystemStats s"
  "lastTypingStats (record_call c s) = lastTypingStats s"
  "timers (record_call c s) = timers s"
  "nextHandle (record_call c s) = nextHandle s"
  "calls (record_call c s) = calls s @ [c]"
  by (simp_all add: record_call_def)


lemma pending_schedRR_other:
  "timers_wf s \<Longrightarrow>
   pending_timers KeyboardRecovery (scheduleResumeReconnect d s) = pending_timers KeyboardRecovery s"
  using pending_clearRR_other[of s]
  by (simp add: scheduleResumeReconnect_def setTimeout_def pending_timers_def
      clearResumeReconnectTimer_def clearTimeout_def split: option.splits)

lemma attempts_clear [simp]:
  "resumeReconnectAttempts (clearResumeReconnectTimer s) = resumeReconnectAttempts s"
  "resumeReconnectAttempts (clearKeyboardRecoveryTimer s) = resumeReconnectAttempts s"
  "keyboardRecoveryAttempts (clearResumeReconnectTimer s) = keyboardRecoveryAttempts s"
  "keyboardRecoveryAttempts (clearKeyboardRecoveryTimer s) = keyboardRecoveryAttempts s"
  by (simp_all add: clearResumeReconnectTimer_def clearKeyboardRecoveryTimer_def clearTimeout_def
      split: option.splits)

lemma attempts_sched [simp]:
  "resumeReconnectAttempts (scheduleResumeReconnect d s) = resumeReconnectAttempts s"
  "resumeReconnectAttempts (scheduleKeyboardRecovery d s) = resumeReconnectAttempts s"
  "keyboardRecoveryAttempts (scheduleResumeReconnect d s) = keyboardRecoveryAttempts s"
  "keyboardRecoveryAttempts (scheduleKeyboardRecovery d s) = keyboardRecoveryAttempts s"
  by (simp_all add: scheduleResumeReconnect_def scheduleKeyboardRecovery_def setTimeout_def
      clearResumeReconnectTimer_def clearKeyboardRecoveryTimer_def clearTimeout_def
      split: option.splits)

















section \<open>Suspend\<close>

lemma suspend_timers:
  assumes wf: "timers_wf s"
  shows "pending_timers ResumeReconnect (on_suspend e s) = [] \<and>
         resumeReconnectTimer (on_suspend e s) = None \<and>
         resumeReconnectAttempts (on_suspend e s) = 0 \<and>
         pending_timers KeyboardRecovery (on_suspend e s) = pending_timers KeyboardRecovery s \<and>
         keyboardRecoveryTimer (on_suspend e s) = keyboardRecoveryTimer s"
proof -
  let ?s0 = "s\<lparr>systemSuspended := True\<rparr>"
  have wf0: "timers_wf ?s0" using wf by simp
  have kv: "keyboardRecoveryTimer (clearResumeReconnectTimer ?s0) = keyboardRecoveryTimer s"
    by (simp add: clearResumeReconnectTimer_def clearTimeout_def split: option.splits)
  from pending_clearRR[OF wf0] pending_clearRR_other[OF wf0] clearRR_var[of ?s0] kv
  show ?thesis
    by (simp add: on_suspend_def Let_def split: option.splits)
qed

lemma suspend_sets_flag: "systemSuspended (on_suspend e s)"
  by (simp add: on_suspend_def Let_def clearResumeReconnectTimer_def clearTimeout_def
      split: option.splits)

lemma attempts_noop_suspended:
  "systemSuspended s \<Longrightarrow> attemptResumeReconnect e s = s \<and> attemptKeyboardRecovery e s = s"
  by (simp add: attemptResumeReconnect_def attemptKeyboardRecovery_def
      split: option.splits)

lemma filter_absent_handle:
  "find (\<lambda>t. handle t = h) ts = None \<Longrightarrow> filter (\<lambda>t. handle t \<noteq> h) ts = ts"
  by (induction ts) (auto split: if_splits)

lemma timer_fires_suspended:
  "systemSuspended s \<Longrightarrow>
   timer_fires e h s = s\<lparr>timers := filter (\<lambda>t. handle t \<noteq> h) (timers s)\<rparr>"
  by (simp add: timer_fires_def Let_def attempts_noop_suspended filter_absent_handle
      split: option.splits timer_kind.splits)


text \<open>
  Claim C2, as stated, fails: the suspend handler cancels only the reconnection timer.
  A keyboard-recovery timer armed before the suspend (handle 0 below) is still pending
  after it; with a stopped listener the resume handler restarts nothing, and when the
  timer then fires it performs a recovery attempt.
\<close>

theorem suspend_keeps_keyboard_timer_counterexample:
  "pending_timers KeyboardRecovery
     (run [(env_failing, KeyboardFallback), (env_failing, Suspend)] state_stopped)
       = [\<lparr> handle = 0, kind = KeyboardRecovery, delay = 2000 \<rparr>] \<and>
   calls (run [(env_failing, KeyboardFallback), (env_failing, Suspend), (env_failing, Resume)]
              state_stopped) = [] \<and>
   calls (run [(env_failing, KeyboardFallback), (env_failing, Suspend), (env_failing, Resume),
               (env_failing, TimerFires 0)] state_stopped)
       = [StopMonitoring, StartMonitoring] \<and>
   keyboardRecoveryAttempts
     (run [(env_failing, KeyboardFallback), (env_failing, Suspend), (env_failing, Resume),
           (env_failing, TimerFires 0)] state_stopped) = 1"
  by (simp add: state_stopped_def model_defs)

text \<open>
  Claim C2, amended.  A suspend notification sets the suspended flag, cancels the
  pending reconnection timer and resets its counter; the keyboard-recovery timer and
  its handle are left as they are.  While the suspended flag is set, a retry timer that
  fires only leaves the event loop: no collaborator is called, no counter changes and
  nothing is armed; scheduling is a no-op.
\<close>

theorem suspend_cancels_resume_timer_and_gates_attempts:
  "(timers_wf s \<longrightarrow>
      pending_timers ResumeReconnect (on_suspend e s) = [] \<and>
      resumeReconnectTimer (on_suspend e s) = None \<and>
      resumeReconnectAttempts (on_suspend e s) = 0 \<and>
      pending_timers KeyboardRecovery (on_suspend e s) = pending_timers KeyboardRecovery s \<and>
      keyboardRecoveryTimer (on_suspend e s) = keyboardRecoveryTimer s) \<and>
   systemSuspended (on_suspend e s) \<and>
   (systemSuspended s \<longrightarrow>
      timer_fires e h s = s\<lparr>timers := filter (\<lambda>t. handle t \<noteq> h) (timers s)\<rparr> \<and>
      scheduleResumeReconnect d s = s \<and>
      scheduleKeyboardRecovery d s = s)"
  using suspend_timers[of s e] suspend_sets_flag[of e s] timer_fires_suspended[of s e h]
    sched_suspended[of s d]
  by blast

theorem suspend_cancels_resume_timer_and_gates_attempts_witness:
  "timers_wf state_with_timers \<and>
   pending_timers ResumeReconnect state_with_timers
     = [\<lparr> handle = 0, kind = ResumeReconnect, delay = 1000 \<rparr>] \<and>
   pending_timers ResumeReconnect (on_suspend env_failing state_with_timers) = [] \<and>
   pending_timers KeyboardRecovery (on_suspend env_failing state_with_timers)
     = [\<lparr> handle = 1, kind = KeyboardRecovery, delay = 2000 \<rparr>] \<and>
   systemSuspended (on_suspend env_failing state_with_timers) \<and>
   timer_fires env_failing 1 (on_suspend env_failing state_with_timers)
     = (on_suspend env_failing state_with_timers) \<lparr> timers := [] \<rparr> \<and>
   scheduleKeyboardRecovery 2000 (on_suspend env_failing state_with_timers)
     = on_suspend env_failing state_with_timers"
proof -
  have wf: "timers_wf state_with_timers"
    by (simp add: state_with_timers_def model_defs)
  have p: "pending_timers ResumeReconnect state_with_timers
             = [\<lparr> handle = 0, kind = ResumeReconnect, delay = 1000 \<rparr>]"
    "pending_timers KeyboardRecovery state_with_timers
             = [\<lparr> handle = 1, kind = KeyboardRecovery, delay = 2000 \<rparr>]"
    by (simp_all add: state_with_timers_def model_defs)
  have t: "filter (\<lambda>t. handle t \<noteq> 1) (timers (on_suspend env_failing state_with_timers)) = []"
    by (simp add: state_with_timers_def model_defs)
  from suspend_cancels_resume_timer_and_gates_attempts
         [of state_with_timers env_failing 1 2000]
       suspend_cancels_resume_timer_and_gates_attempts
         [of "on_suspend env_failing state_with_timers" env_failing 1 2000]
       wf p t
  show ?thesis by simp
qed

section \<open>Retry limits\<close>


lemma budget_initial: "device_budget (initial_state esp km)"
  by (simp add: device_budget_def initial_state_def pending_timers_def)





section \<open>Session preservation across a restart\<close>

lemma restart_preserves_session:
  assumes "keyboardMonitor s = Some km" "currentSession km = Some prev"
    "force \<or> km_isActive km"
    "stopResult e = Returns km1" "startResult e = Returns km2" "currentSession km2 = Some cur"
  shows "fst (restartKeyboardMonitoring e force s) = None \<and>
         keyboardMonitor (snd (restartKeyboardMonitoring e force s))
           = Some (km2 \<lparr> currentSession :=
                       Some (cur \<lparr> totalKeystrokes := totalKeystrokes prev,
                                   startTime := startTime prev,
                                   lastKeystrokeTime := lastKeystrokeTime prev \<rparr>) \<rparr>)"
  using assms
  by (auto simp add: restartKeyboardMonitoring_def Let_def splice_session_def or_zero_def
      clearKeyboardRecoveryTimer_def clearTimeout_def split: option.splits)

lemma ipc_restart_preserves_session:
  assumes "keyboardMonitor s = Some km" "currentSession km = Some prev"
    "stopResult e = Returns km1" "startResult e = Returns km2" "currentSession km2 = Some cur"
  shows "keyboardMonitor (snd (ipc_restart_keyboard_monitoring e s))
           = Some (km2 \<lparr> currentSession :=
                       Some (cur \<lparr> totalKeystrokes := totalKeystrokes prev,
                                   startTime := startTime prev,
                                   lastKeystrokeTime := lastKeystrokeTime prev \<rparr>) \<rparr>)"
  using assms
  by (auto simp add: ipc_restart_keyboard_monitoring_def restartKeyboardMonitoring_def Let_def
      splice_session_def or_zero_def scheduleKeyboardRecovery_def setTimeout_def
      clearKeyboardRecoveryTimer_def clearTimeout_def split: option.splits)

lemma recovery_keeps_new_session:
  assumes "keyboardMonitor s = Some km" "\<not> (keyboardListener km \<and> \<not> fallbackMode km)"
    "\<not> systemSuspended s" "stopResult e = Returns km1" "startResult e = Returns km2"
  shows "keyboardMonitor (attemptKeyboardRecovery e s) = Some km2"
  using assms
  by (auto simp add: attemptKeyboardRecovery_def Let_def
      clearKeyboardRecoveryTimer_def clearTimeout_def split: option.splits)

text \<open>
  Claim C4.  The claim says that every supervised restart, the automatic recovery as
  well as the manual forced restart, carries \<open>totalKeystrokes\<close>, \<open>startTime\<close> and
  \<open>lastKeystrokeTime\<close> over into the new session.  \<open>restartKeyboardMonitoring\<close> does
  so, as the two lemmas above show, and the manual request goes through it.  The
  automatic recovery, \<open>attemptKeyboardRecovery\<close>, stops and starts the listener itself
  and takes no snapshot: with a session of 42 keystrokes and a listener in fallback
  mode, a recovery that succeeds leaves the session that \<open>startMonitoring\<close> opened,
  with 0 keystrokes, where the manual restart from the same state reports 42.
\<close>

theorem recovery_attempt_loses_session:
  "map_option currentSession (keyboardMonitor state_fallback) = Some (Some session_42) \<and>
   totalKeystrokes session_42 = 42 \<and>
   map_option currentSession
     (keyboardMonitor (run [(env_working, KeyboardFallback), (env_working, TimerFires 0)]
                           state_fallback))
     = Some (Some \<lparr> totalKeystrokes = 0, startTime = None, lastKeystrokeTime = 0 \<rparr>) \<and>
   map_option currentSession
     (keyboardMonitor (step env_working RestartKeyboardRequest state_fallback))
     = Some (Some \<lparr> totalKeystrokes = 42, startTime = Some 1000, lastKeystrokeTime = 5000 \<rparr>)"
  by (simp add: state_fallback_def model_defs)

section \<open>A reconnection attempt\<close>

lemma catchRR_other_fields [simp]:
  "calls (attemptResumeReconnect_catch n s) = calls s"
  "pendingResumePort (attemptResumeReconnect_catch n s) = pendingResumePort s"
  by (simp_all add: attemptResumeReconnect_catch_def scheduleResumeReconnect_def setTimeout_def
      clearResumeReconnectTimer_def clearTimeout_def Let_def split: option.splits)






section \<open>Resume\<close>

lemma calls_clear [simp]:
  "calls (clearResumeReconnectTimer s) = calls s"
  "calls (clearKeyboardRecoveryTimer s) = calls s"
  by (simp_all add: clearResumeReconnectTimer_def clearKeyboardRecoveryTimer_def clearTimeout_def
      split: option.splits)

lemma sched_other_fields [simp]:
  "calls (scheduleResumeReconnect d s) = calls s"
  "calls (scheduleKeyboardRecovery d s) = calls s"
  "keyboardMonitor (scheduleResumeReconnect d s) = keyboardMonitor s"
  by (simp_all add: scheduleResumeReconnect_def scheduleKeyboardRecovery_def setTimeout_def
      clearResumeReconnectTimer_def clearKeyboardRecoveryTimer_def clearTimeout_def
      split: option.splits)

text \<open>
  Claim C6, as stated, fails: the resume handler calls \<open>restartKeyboardMonitoring()\<close>
  with \<open>force\<close> at its default \<open>false\<close>.  With a listener that is stopped (and in
  fallback mode) the handler calls neither \<open>stopMonitoring\<close> nor \<open>startMonitoring\<close>.
\<close>

theorem resume_skips_inactive_listener_counterexample:
  "keyboardMonitor state_stopped = Some km_stopped \<and>
   calls (on_resume env_working state_stopped) = [] \<and>
   keyboardMonitor (on_resume env_working state_stopped) = Some km_stopped"
  by (simp add: state_stopped_def model_defs)

text \<open>
  Claim C6, amended.  On a resume notification the supervisor makes one restart that is
  not forced: if the keyboard monitor reports that it is active, \<open>stopMonitoring\<close> is
  called and, when it returns, \<open>startMonitoring\<close>; if the monitor is not active (or
  absent) nothing is called and the monitor is left as it is.  Fallback mode and the
  listener handle play no part in the decision.
\<close>

theorem resume_restarts_active_listener:
  "(keyboardMonitor s = Some km \<and> km_isActive km \<longrightarrow>
      calls (on_resume e s)
        = calls s @ (case stopResult e of
                       Throws km1 \<Rightarrow> [StopMonitoring]
                     | Returns km1 \<Rightarrow> [StopMonitoring, StartMonitoring])) \<and>
   (keyboardMonitor s = Some km \<and> \<not> km_isActive km \<longrightarrow>
      calls (on_resume e s) = calls s \<and> keyboardMonitor (on_resume e s) = Some km) \<and>
   (keyboardMonitor s = None \<longrightarrow> calls (on_resume e s) = calls s)"
  by (auto simp add: on_resume_def restartKeyboardMonitoring_def Let_def
      split: option.splits outcome.splits)

theorem resume_restarts_active_listener_witness:
  "keyboardMonitor state_fallback = Some km_fallback \<and> km_isActive km_fallback \<and>
   calls (on_resume env_working state_fallback) = [StopMonitoring, StartMonitoring] \<and>
   keyboardMonitor state_stopped = Some km_stopped \<and> \<not> km_isActive km_stopped \<and>
   calls (on_resume env_working state_stopped) = []"
proof -
  have a: "keyboardMonitor state_fallback = Some km_fallback" "km_isActive km_fallback"
    "calls state_fallback = []" "stopResult env_working = Returns km_stopped"
    by (simp_all add: state_fallback_def initial_state_def km_fallback_def env_working_def)
  have b: "keyboardMonitor state_stopped = Some km_stopped" "\<not> km_isActive km_stopped"
    "calls state_stopped = []"
    by (simp_all add: state_stopped_def initial_state_def km_stopped_def)
  from resume_restarts_active_listener[of state_fallback km_fallback env_working]
       resume_restarts_active_listener[of state_stopped km_stopped env_working] a b
  show ?thesis by simp
qed

section \<open>Statistics forwarding\<close>

lemma stats_clear [simp]:
  "lastSystemStats (clearResumeReconnectTimer s) = lastSystemStats s"
  "lastSystemStats (clearKeyboardRecoveryTimer s) = lastSystemStats s"
  "lastTypingStats (clearResumeReconnectTimer s) = lastTypingStats s"
  "lastTypingStats (clearKeyboardRecoveryTimer s) = lastTypingStats s"
  by (simp_all add: clearResumeReconnectTimer_def clearKeyboardRecoveryTimer_def clearTimeout_def
      split: option.splits)

lemma stats_sched [simp]:
  "lastSystemStats (scheduleResumeReconnect d s) = lastSystemStats s"
  "lastSystemStats (scheduleKeyboardRecovery d s) = lastSystemStats s"
  "lastTypingStats (scheduleResumeReconnect d s) = lastTypingStats s"
  "lastTypingStats (scheduleKeyboardRecovery d s) = lastTypingStats s"
  by (simp_all add: scheduleResumeReconnect_def scheduleKeyboardRecovery_def setTimeout_def
      split: option.splits prod.splits)

lemma stats_catch [simp]:
  "lastSystemStats (attemptResumeReconnect_catch n s) = lastSystemStats s"
  "lastSystemStats (attemptKeyboardRecovery_catch n s) = lastSystemStats s"
  "lastTypingStats (attemptResumeReconnect_catch n s) = lastTypingStats s"
  "lastTypingStats (attemptKeyboardRecovery_catch n s) = lastTypingStats s"
  by (simp_all add: attemptResumeReconnect_catch_def attemptKeyboardRecovery_catch_def)

lemma stats_attempts [simp]:
  "lastSystemStats (attemptResumeReconnect e s) = lastSystemStats s"
  "lastSystemStats (attemptKeyboardRecovery e s) = lastSystemStats s"
  "lastTypingStats (attemptResumeReconnect e s) = lastTypingStats s"
  "lastTypingStats (attemptKeyboardRecovery e s) = lastTypingStats s"
  by (simp_all add: attemptResumeReconnect_def attemptKeyboardRecovery_def Let_def
      split: option.splits connect_outcome.splits outcome.splits)

lemma stats_restart [simp]:
  "lastSystemStats (snd (restartKeyboardMonitoring e f s)) = lastSystemStats s"
  "lastTypingStats (snd (restartKeyboardMonitoring e f s)) = lastTypingStats s"
  by (simp_all add: restartKeyboardMonitoring_def Let_def
      split: option.splits outcome.splits prod.splits)

lemma stats_ipc [simp]:
  "lastSystemStats (snd (ipc_restart_keyboard_monitoring e s)) = lastSystemStats s"
  "lastTypingStats (snd (ipc_restart_keyboard_monitoring e s)) = lastTypingStats s"
proof -
  let ?s0 = "clearKeyboardRecoveryTimer (s\<lparr>keyboardRecoveryAttempts := 0\<rparr>)"
  obtain r s1 where r: "restartKeyboardMonitoring e True ?s0 = (r, s1)" by fastforce
  have "lastSystemStats s1 = lastSystemStats s" "lastTypingStats s1 = lastTypingStats s"
    using stats_restart[of e True ?s0] r by simp_all
  then show "lastSystemStats (snd (ipc_restart_keyboard_monitoring e s)) = lastSystemStats s"
    "lastTypingStats (snd (ipc_restart_keyboard_monitoring e s)) = lastTypingStats s"
    using r by (simp_all add: ipc_restart_keyboard_monitoring_def Let_def split: option.splits)
qed

lemma stats_step:
  "lastSystemStats (step e ev s) = spec_latest_system_stats [ev] (lastSystemStats s) \<and>
   lastTypingStats (step e ev s) = spec_latest_typing_stats [ev] (lastTypingStats s)"
  by (cases ev)
     (simp_all add: on_suspend_def on_resume_def timer_fires_def on_connection_change_def
        on_system_stats_def on_typing_stats_def on_keyboard_fallback_def statsInterval_tick_def
        cleanupPowerHandlers_def Let_def split: option.splits timer_kind.splits)

lemma stats_run:
  "lastSystemStats (run evs s) = spec_latest_system_stats (map snd evs) (lastSystemStats s) \<and>
   lastTypingStats (run evs s) = spec_latest_typing_stats (map snd evs) (lastTypingStats s)"
proof (induction evs arbitrary: s)
  case Nil
  show ?case by simp
next
  case (Cons a evs)
  obtain e ev where a: "a = (e, ev)" by (cases a)
  from Cons[of "step e ev s"] stats_step[of e ev s] a show ?case
    by (cases ev) simp_all
qed

lemma tick_cases:
  "(esp32SerialManager s = None \<longrightarrow> statsInterval_tick s = s) \<and>
   (esp32SerialManager s = Some m \<and> \<not> isConnected m \<longrightarrow> statsInterval_tick s = s) \<and>
   (esp32SerialManager s = Some m \<and> isConnected m \<longrightarrow>
      statsInterval_tick s
        = s\<lparr>calls := calls s @ [SendCombinedStats (lastSystemStats s) (lastTypingStats s)]\<rparr>)"
  by (simp add: statsInterval_tick_def record_call_def)

text \<open>
  Claim C7.  After any sequence of events, a tick of the statistics timer sends nothing
  and changes nothing when the serial manager reports that the device is not connected;
  when it is connected, the tick makes exactly one \<open>sendCombinedStats\<close> call, whose
  arguments are the payloads of the most recent system-stats and typing-stats events.
\<close>

theorem stats_tick_sends_latest_when_connected:
  "(esp32SerialManager (run evs s) = Some m \<and> \<not> isConnected m \<longrightarrow>
      step e StatsTick (run evs s) = run evs s) \<and>
   (esp32SerialManager (run evs s) = Some m \<and> isConnected m \<longrightarrow>
      step e StatsTick (run evs s)
        = (run evs s)
            \<lparr> calls := calls (run evs s) @
                 [SendCombinedStats
                    (spec_latest_system_stats (map snd evs) (lastSystemStats s))
                    (spec_latest_typing_stats (map snd evs) (lastTypingStats s))] \<rparr>)"
  using tick_cases[of "run evs s" m] stats_run[of evs s] by simp

theorem stats_tick_sends_latest_when_connected_witness:
  "esp32SerialManager (run stats_trace state_fallback) = Some serial_connected \<and>
   isConnected serial_connected \<and>
   calls (step env_working StatsTick (run stats_trace state_fallback))
     = [SendCombinedStats \<lparr> cpu = 10, memory = 40 \<rparr> \<lparr> wpm = 55, isActive = True \<rparr>,
        SendCombinedStats \<lparr> cpu = 30, memory = 41 \<rparr> \<lparr> wpm = 55, isActive = True \<rparr>] \<and>
   esp32SerialManager (run [] state_fallback) = Some serial_disconnected \<and>
   \<not> isConnected serial_disconnected \<and>
   step env_working StatsTick (run [] state_fallback) = run [] state_fallback"
proof -
  have m: "esp32SerialManager (run stats_trace state_fallback) = Some serial_connected"
    "calls (run stats_trace state_fallback)
       = [SendCombinedStats \<lparr> cpu = 10, memory = 40 \<rparr> \<lparr> wpm = 55, isActive = True \<rparr>]"
    by (simp_all add: stats_trace_def state_fallback_def model_defs)
  have c: "isConnected serial_connected" "\<not> isConnected serial_disconnected"
    by (simp_all add: serial_connected_def serial_disconnected_def)
  have l: "spec_latest_system_stats (map snd stats_trace) (lastSystemStats state_fallback)
             = \<lparr> cpu = 30, memory = 41 \<rparr>"
    "spec_latest_typing_stats (map snd stats_trace) (lastTypingStats state_fallback)
             = \<lparr> wpm = 55, isActive = True \<rparr>"
    by (simp_all add: stats_trace_def)
  have d: "esp32SerialManager (run [] state_fallback) = Some serial_disconnected"
    by (simp add: state_fallback_def initial_state_def)
  from stats_tick_sends_latest_when_connected
         [of stats_trace state_fallback serial_connected env_working]
       stats_tick_sends_latest_when_connected
         [of "[]" state_fallback serial_disconnected env_working]
       m c l d
  show ?thesis by simp
qed

section \<open>Connection changes\<close>




end
